theory Spec2Isabelle
  imports Complex_Main "HOL-Library.Word" "HOL-Library.Sublist"
begin

section \<open>The micromouse simulator: Controller, maze graphics and search bookkeeping\<close>

text \<open>
  A shallow embedding of \<^verbatim>\<open>src/sim/Controller.cpp\<close>, of \<^verbatim>\<open>solve()\<close> in
  \<^verbatim>\<open>src/Main.cpp\<close>, of the declarations in \<^verbatim>\<open>MazeGraphic.h\<close> and
  \<^verbatim>\<open>TileGraphic.h\<close>, and of \<^verbatim>\<open>struct Info\<close> in
  \<^verbatim>\<open>mouse/mackAlgoTwo/Info.h\<close>.

  A \<^verbatim>\<open>QString\<close> or \<^verbatim>\<open>std::string\<close> is a \<open>string\<close>: the list of its
  characters, the protocol text being ASCII. The newline is \<open>CHR 0x0A\<close>.
\<close>

subsection \<open>Enumerations and lookup tables\<close>

type_synonym QString = string

datatype Direction = NORTH | EAST | SOUTH | WEST

datatype InterfaceType = DISCRETE | CONTINUOUS

text \<open>
  \<^verbatim>\<open>STRING_TO_DIRECTION\<close> and \<^verbatim>\<open>STRING_TO_INTERFACE_TYPE\<close> are tables whose
  declarations are missing; the functions below take them as parameters.
  \<^verbatim>\<open>contains\<close> is membership in the domain. \<^verbatim>\<open>value\<close> of a missing key is the
  default-constructed value, taken to be the first enumerator; the constructor validates
  the options before it looks them up, so that it never reads a missing key.
\<close>

type_synonym DirectionTable = "QString \<rightharpoonup> Direction"
type_synonym InterfaceTable = "QString \<rightharpoonup> InterfaceType"

definition contains :: "('k \<rightharpoonup> 'v) \<Rightarrow> 'k \<Rightarrow> bool" where
  "contains m k = (m k \<noteq> None)"

definition direction_value :: "DirectionTable \<Rightarrow> QString \<Rightarrow> Direction" where
  "direction_value m k = (case m k of Some d \<Rightarrow> d | None \<Rightarrow> NORTH)"

definition interface_value :: "InterfaceTable \<Rightarrow> QString \<Rightarrow> InterfaceType" where
  "interface_value m k = (case m k of Some t \<Rightarrow> t | None \<Rightarrow> DISCRETE)"

definition OPENING_DIRECTION_STRING :: QString where
  "OPENING_DIRECTION_STRING = ''OPENING''"

definition WALL_DIRECTION_STRING :: QString where
  "WALL_DIRECTION_STRING = ''WALL''"

text \<open>
  Modelled from the spec: the contents of the two tables, whose declarations are missing,
  for concrete runs. A recognized cardinal direction is one of the four compass names, a
  recognized interface mode one of the two mode names.
\<close>

definition STRING_TO_DIRECTION :: DirectionTable where
  "STRING_TO_DIRECTION =
     [''NORTH'' \<mapsto> NORTH, ''EAST'' \<mapsto> EAST, ''SOUTH'' \<mapsto> SOUTH, ''WEST'' \<mapsto> WEST]"

definition STRING_TO_INTERFACE_TYPE :: InterfaceTable where
  "STRING_TO_INTERFACE_TYPE = [''DISCRETE'' \<mapsto> DISCRETE, ''CONTINUOUS'' \<mapsto> CONTINUOUS]"

subsection \<open>Fatal termination\<close>

text \<open>
  Every \<^verbatim>\<open>qCritical() << ...; SimUtilities::quit();\<close> of the source is one
  constructor of \<open>fatal\<close>, carrying the values that the message prints:
  \<^item> \<open>InvalidInterfaceType t a\<close>: \<^verbatim>\<open>"t" is not a valid interface type. You must declare
    the interface type of the mouse algorithm "a" to be either ...\<close>
  \<^item> \<open>InvalidInitialDirection d a\<close>: \<^verbatim>\<open>"d" is not a valid initial direction. You must
    declare the initial direction of the mouse algorithm "a" to be one of ...\<close>
  \<^item> \<open>InvalidTileTextDimensions r c a\<close>: \<^verbatim>\<open>Both tileTextNumberOfRows() and
    tileTextNumberOfCols() must return non-negative integers. Since they return "r" and
    "c" ...\<close>
  \<^item> \<open>InvalidWheelSpeedFraction x a\<close>: \<^verbatim>\<open>"x" is not a valid wheel speed fraction.
    The wheel speed fraction of the mouse algorithm "a" has to be in [0.0, 1.0].\<close>
  \<^item> \<open>MouseInitFailed a f\<close>: \<^verbatim>\<open>Unable to successfully initialize the mouse in the
    algorithm "a" from "f".\<close>
  \<^item> \<open>NotDiscreteCompatible f\<close>, \<open>NotContinuousCompatible f\<close>: \<^verbatim>\<open>The mouse file "f"
    is not discrete (continuous) interface compatible.\<close>
  \<^item> \<open>InvalidMouseAlgorithm a\<close>: \<^verbatim>\<open>"a" is not a valid mouse algorithm.\<close>
  \<^item> \<open>BuildFailed e\<close>: \<^verbatim>\<open>Failed to build mouse algo!\<close> and the compiler's output
    \<open>e\<close>
  \<^item> \<open>NoMainFile p\<close>: \<^verbatim>\<open>No "Main" file found in "p"\<close>
  \<^item> \<open>OutOfRange\<close>: the exception of \<^verbatim>\<open>std::map::at\<close> in \<^verbatim>\<open>Main.cpp\<close>, which
    nothing catches.

  A \<^verbatim>\<open>double\<close> is compared only, never computed with: its value is a real
  number, an infinity or NaN, and a comparison with NaN is false.
\<close>

datatype double = Finite real | PosInf | NegInf | NaN

datatype fatal =
    InvalidInterfaceType QString QString
  | InvalidInitialDirection QString QString
  | InvalidTileTextDimensions int int QString
  | InvalidWheelSpeedFraction double QString
  | MouseInitFailed QString QString
  | NotDiscreteCompatible QString
  | NotContinuousCompatible QString
  | InvalidMouseAlgorithm QString
  | BuildFailed QString
  | NoMainFile QString
  | OutOfRange

subsection \<open>Validation of the static options\<close>

definition validateMouseInterfaceType ::
    "InterfaceTable \<Rightarrow> QString \<Rightarrow> QString \<Rightarrow> fatal option" where
  "validateMouseInterfaceType s2i mouseAlgorithm interfaceType =
     (if \<not> contains s2i interfaceType
      then Some (InvalidInterfaceType interfaceType mouseAlgorithm)
      else None)"

definition validateMouseInitialDirection ::
    "DirectionTable \<Rightarrow> QString \<Rightarrow> QString \<Rightarrow> fatal option" where
  "validateMouseInitialDirection s2d mouseAlgorithm initialDirection =
     (if \<not> (contains s2d initialDirection
             \<or> initialDirection = OPENING_DIRECTION_STRING
             \<or> initialDirection = WALL_DIRECTION_STRING)
      then Some (InvalidInitialDirection initialDirection mouseAlgorithm)
      else None)"

definition validateTileTextRowsAndCols :: "QString \<Rightarrow> int \<Rightarrow> int \<Rightarrow> fatal option" where
  "validateTileTextRowsAndCols mouseAlgorithm tileTextNumberOfRows tileTextNumberOfCols =
     (if tileTextNumberOfRows < 0 \<or> tileTextNumberOfCols < 0
      then Some (InvalidTileTextDimensions tileTextNumberOfRows tileTextNumberOfCols
                   mouseAlgorithm)
      else None)"

subsection \<open>The initial direction\<close>

text \<open>
  \<^verbatim>\<open>model->getMaze()->getTile(0, 0)->isWall(d)\<close>: the start tile is given by its
  wall-presence flags, one per direction.
\<close>

type_synonym Tile = "Direction \<Rightarrow> bool"

definition getInitialDirection :: "DirectionTable \<Rightarrow> QString \<Rightarrow> Tile \<Rightarrow> Direction" where
  "getInitialDirection s2d initialDirection isWall =
     (let wallNorth = isWall NORTH;
          wallEast = isWall EAST
      in if \<not> contains s2d initialDirection \<and> wallNorth = wallEast then NORTH
         else if initialDirection = OPENING_DIRECTION_STRING
           then (if wallNorth then EAST else NORTH)
         else if initialDirection = WALL_DIRECTION_STRING
           then (if wallNorth then NORTH else EAST)
         else direction_value s2d initialDirection)"

subsection \<open>The wheel speed fraction\<close>

fun double_le :: "double \<Rightarrow> double \<Rightarrow> bool" where
  "double_le NaN y = False"
| "double_le x NaN = False"
| "double_le NegInf y = True"
| "double_le x PosInf = True"
| "double_le (Finite a) (Finite b) = (a \<le> b)"
| "double_le PosInf y = False"
| "double_le (Finite a) NegInf = False"

definition validateMouseWheelSpeedFraction :: "QString \<Rightarrow> double \<Rightarrow> fatal option" where
  "validateMouseWheelSpeedFraction mouseAlgorithm wheelSpeedFraction =
     (if \<not> (double_le (Finite 0) wheelSpeedFraction \<and> double_le wheelSpeedFraction (Finite 1))
      then Some (InvalidWheelSpeedFraction wheelSpeedFraction mouseAlgorithm)
      else None)"

text \<open>The closed interval from 0.0 to 1.0, as a set of \<^verbatim>\<open>double\<close> values.\<close>

fun in_unit_interval :: "double \<Rightarrow> bool" where
  "in_unit_interval (Finite r) = (0 \<le> r \<and> r \<le> 1)"
| "in_unit_interval x = False"

subsection \<open>Effects and outcomes\<close>

text \<open>
  What the simulator does to the outside is recorded as a trace of events, oldest first.
  \<^verbatim>\<open>MouseInitialize\<close> is \<^verbatim>\<open>Mouse::initialize\<close>, which loads the
  mouse-definition file; \<^verbatim>\<open>Controller.cpp\<close> passes it the initial direction,
  \<^verbatim>\<open>Main.cpp\<close> does not.
\<close>

datatype event =
    Build "QString list"
  | StartProcess QString
  | MouseInitialize QString "Direction option"
  | SetInterfaceType InterfaceType
  | SetTileFogginess int int bool
  | RunAlgorithm Direction

fun loadsMouseFile :: "event \<Rightarrow> bool" where
  "loadsMouseFile (MouseInitialize f d) = True"
| "loadsMouseFile e = False"

text \<open>
  Modelled from the spec: \<^verbatim>\<open>SimUtilities::quit()\<close>, whose definition is missing. A
  fatal condition terminates the whole simulator, so nothing after a call of it runs. The
  left summand is the fatal condition with the trace up to the termination.
\<close>

type_synonym 'a result = "(fatal \<times> event list) + 'a"

definition quit :: "fatal \<Rightarrow> event list \<Rightarrow> 'a result" where
  "quit f tr = Inl (f, tr)"

subsection \<open>Starting the mouse algorithm\<close>

text \<open>
  The file system and the compiler are the environment: the top-level directories of the
  algorithms directory, the relative and absolute paths of the files under a directory,
  and the exit code and diagnostic output of the build for given arguments.
  \<^verbatim>\<open>QStringList::filter(".cpp")\<close> keeps the strings that contain the substring.
\<close>

record FileSystem =
  getSrcMouseAlgosDirectory :: QString
  getTopLevelDirs :: "QString \<Rightarrow> QString list"
  getFiles :: "QString \<Rightarrow> QString list \<times> QString list"
  buildExitCode :: "QString list \<Rightarrow> int"
  buildStandardError :: "QString list \<Rightarrow> QString"

definition buildArgs :: "QString list \<Rightarrow> QString \<Rightarrow> QString list" where
  "buildArgs absolutePaths binPath =
     filter (sublist ''.cpp'') absolutePaths @ [''-g'', ''-o'', binPath]"

definition startMouseAlgorithm ::
    "FileSystem \<Rightarrow> QString \<Rightarrow> event list \<Rightarrow> (event list) result" where
  "startMouseAlgorithm fs mouseAlgorithm tr =
     (let mouseAlgoDir = getSrcMouseAlgosDirectory fs in
      if mouseAlgorithm \<notin> set (getTopLevelDirs fs mouseAlgoDir)
      then quit (InvalidMouseAlgorithm mouseAlgorithm) tr
      else
        let selectedMouseAlgoPath = getSrcMouseAlgosDirectory fs @ mouseAlgorithm;
            files = getFiles fs selectedMouseAlgoPath;
            relativePaths = fst files;
            absolutePaths = snd files
        in if ''Main.cpp'' \<in> set relativePaths
           then
             let binPath = selectedMouseAlgoPath @ ''/a.out'';
                 args = buildArgs absolutePaths binPath;
                 tr1 = tr @ [Build args]
             in if buildExitCode fs args \<noteq> 0
                then quit (BuildFailed (buildStandardError fs args)) tr1
                else Inr (tr1 @ [StartProcess binPath])
           else quit (NoMainFile selectedMouseAlgoPath) tr)"

subsection \<open>Initializing and validating the mouse\<close>

text \<open>
  \<^verbatim>\<open>Mouse::initialize\<close> and \<^verbatim>\<open>MouseChecker\<close> belong to the environment:
  whether the file initializes the mouse, and whether the initialized mouse is compatible
  with each interface.
\<close>

record MouseModel =
  startTile :: Tile
  initialize :: "QString \<Rightarrow> Direction \<Rightarrow> bool"
  isDiscreteInterfaceCompatible :: "QString \<Rightarrow> bool"
  isContinuousInterfaceCompatible :: "QString \<Rightarrow> bool"

definition initAndValidateMouse ::
    "DirectionTable \<Rightarrow> InterfaceTable \<Rightarrow> QString \<Rightarrow> QString \<Rightarrow> QString \<Rightarrow> QString \<Rightarrow>
     MouseModel \<Rightarrow> event list \<Rightarrow> (event list) result" where
  "initAndValidateMouse s2d s2i mouseAlgorithm mouseFile interfaceType initialDirection model tr =
     (let direction = getInitialDirection s2d initialDirection (startTile model);
          success = initialize model mouseFile direction;
          tr1 = tr @ [MouseInitialize mouseFile (Some direction)]
      in if \<not> success then quit (MouseInitFailed mouseAlgorithm mouseFile) tr1
         else if interface_value s2i interfaceType = DISCRETE
           then (if \<not> isDiscreteInterfaceCompatible model mouseFile
                 then quit (NotDiscreteCompatible mouseFile) tr1
                 else Inr tr1)
           else (if \<not> isContinuousInterfaceCompatible model mouseFile
                 then quit (NotContinuousCompatible mouseFile) tr1
                 else Inr tr1))"

subsection \<open>The constructor of the Controller\<close>

text \<open>The fields of \<^verbatim>\<open>m_staticOptions\<close> that the constructor reads.\<close>

record StaticMouseAlgorithmOptions =
  mouseFile :: QString
  interfaceType :: QString
  initialDirection :: QString
  tileTextNumberOfRows :: int
  tileTextNumberOfCols :: int
  wheelSpeedFraction :: double

text \<open>
  The constructor polls until the algorithm has declared its static options:
  \<^verbatim>\<open>while (!m_staticOptionsFinalized) { sleep; processEvents(); }\<close>.
  The environment says, for each test of the loop condition, whether the options are
  final by then and what they are. An algorithm that never declares them keeps the loop
  running forever: the value is \<open>None\<close>.
\<close>

partial_function (option) waitForStaticOptions ::
    "(nat \<Rightarrow> StaticMouseAlgorithmOptions option) \<Rightarrow> nat \<Rightarrow> StaticMouseAlgorithmOptions option"
  where
  "waitForStaticOptions finalized n =
     (case finalized n of
        Some m_staticOptions \<Rightarrow> Some m_staticOptions
      | None \<Rightarrow> waitForStaticOptions finalized (Suc n))"

text \<open>
  The result is \<open>None\<close> when the constructor never returns, a fatal condition with
  the trace when the simulator terminates, and the static options with the trace when the
  Controller is constructed.
\<close>

definition Controller ::
    "DirectionTable \<Rightarrow> InterfaceTable \<Rightarrow> QString \<Rightarrow> FileSystem \<Rightarrow>
     (nat \<Rightarrow> StaticMouseAlgorithmOptions option) \<Rightarrow> MouseModel \<Rightarrow>
     ((StaticMouseAlgorithmOptions \<times> event list) result) option" where
  "Controller s2d s2i mouseAlgorithm fs finalized model =
     (case startMouseAlgorithm fs mouseAlgorithm [] of
        Inl q \<Rightarrow> Some (Inl q)
      | Inr tr \<Rightarrow>
          (case waitForStaticOptions finalized 0 of
             None \<Rightarrow> None
           | Some m_staticOptions \<Rightarrow>
               (case validateMouseInterfaceType s2i mouseAlgorithm
                       (interfaceType m_staticOptions) of
                  Some f \<Rightarrow> Some (quit f tr)
                | None \<Rightarrow>
               (case validateMouseInitialDirection s2d mouseAlgorithm
                       (initialDirection m_staticOptions) of
                  Some f \<Rightarrow> Some (quit f tr)
                | None \<Rightarrow>
               (case validateTileTextRowsAndCols mouseAlgorithm
                       (tileTextNumberOfRows m_staticOptions)
                       (tileTextNumberOfCols m_staticOptions) of
                  Some f \<Rightarrow> Some (quit f tr)
                | None \<Rightarrow>
               (case validateMouseWheelSpeedFraction mouseAlgorithm
                       (wheelSpeedFraction m_staticOptions) of
                  Some f \<Rightarrow> Some (quit f tr)
                | None \<Rightarrow>
               (case initAndValidateMouse s2d s2i mouseAlgorithm
                       (mouseFile m_staticOptions) (interfaceType m_staticOptions)
                       (initialDirection m_staticOptions) model tr of
                  Inl q \<Rightarrow> Some (Inl q)
                | Inr tr' \<Rightarrow> Some (Inr (m_staticOptions, tr')))))))))"

subsection \<open>The solving thread of Main.cpp\<close>

text \<open>
  \<^verbatim>\<open>solve()\<close> looks the configured algorithm up among the registered ones and
  reads the mouse file and the interface type it declares. \<^verbatim>\<open>std::map::at\<close>
  on a missing key throws; nothing catches it, and the process ends.
\<close>

record IMouseAlgorithm =
  algo_mouseFile :: QString
  algo_interfaceType :: QString

record Param =
  P_mouseAlgorithm :: QString
  P_discreteInterfaceUnfogTileOnEntry :: bool
  P_mouseStartingDirection :: QString

definition solve ::
    "DirectionTable \<Rightarrow> InterfaceTable \<Rightarrow> Param \<Rightarrow> (QString \<rightharpoonup> IMouseAlgorithm) \<Rightarrow>
     (QString \<Rightarrow> bool) \<Rightarrow> (event list) result" where
  "solve s2d s2i P algorithms g_mouse_initialize =
     (case algorithms (P_mouseAlgorithm P) of
        None \<Rightarrow> quit (InvalidMouseAlgorithm (P_mouseAlgorithm P)) []
      | Some algorithm \<Rightarrow>
          let mouseFile = algo_mouseFile algorithm;
              success = g_mouse_initialize mouseFile;
              tr1 = [MouseInitialize mouseFile None]
          in if \<not> success then quit (MouseInitFailed (P_mouseAlgorithm P) mouseFile) tr1
             else
               (case s2i (algo_interfaceType algorithm) of
                  None \<Rightarrow>
                    quit (InvalidInterfaceType (algo_interfaceType algorithm)
                            (P_mouseAlgorithm P)) tr1
                | Some t \<Rightarrow>
                    let tr2 = tr1 @ [SetInterfaceType t];
                        tr3 = (if t = DISCRETE \<and> P_discreteInterfaceUnfogTileOnEntry P
                               then tr2 @ [SetTileFogginess 0 0 False] else tr2)
                    in (case s2d (P_mouseStartingDirection P) of
                          None \<Rightarrow> quit OutOfRange tr3
                        | Some d \<Rightarrow> Inr (tr3 @ [RunAlgorithm d]))))"

subsection \<open>The worker's result\<close>

text \<open>
  \<^verbatim>\<open>m_process->write((response + "\n").toStdString().c_str())\<close>: the argument
  is a pointer to a zero-terminated string, and \<^verbatim>\<open>QIODevice::write(const char*)\<close>
  writes the characters before the first zero. The state is the text written to the
  input stream of the process so far.
\<close>

definition c_str :: "string \<Rightarrow> string" where
  "c_str s = takeWhile (\<lambda>c. c \<noteq> CHR 0x00) s"

definition receiveResultFromWorker :: "QString \<Rightarrow> string \<Rightarrow> string" where
  "receiveResultFromWorker response processInput =
     (if response \<noteq> []
      then processInput @ c_str (response @ [CHR 0x0A])
      else processInput)"

subsection \<open>Framing the diagnostic stream into commands\<close>

text \<open>
  \<^verbatim>\<open>QString::split\<close> with a one-character separator, keeping empty parts: the
  result is never empty, and has one more element than the input has separators.
\<close>

fun QString_split :: "char \<Rightarrow> QString \<Rightarrow> QString list" where
  "QString_split sep [] = [[]]"
| "QString_split sep (c # cs) =
     (if c = sep then [] # QString_split sep cs
      else (c # hd (QString_split sep cs)) # tl (QString_split sep cs))"

text \<open>
  \<^verbatim>\<open>QString input = m_process->readAllStandardError();\<close> The read returns the bytes
  that have arrived as a \<^verbatim>\<open>QByteArray\<close>, and the assignment converts them: the
  bytes before the first zero byte are decoded as UTF-8, and what follows a zero byte is
  dropped. The decoder is a parameter; on bytes below 0x80, where UTF-8 is ASCII, it is
  the identity \<open>fromAscii\<close>.
\<close>

definition fromAscii :: "string \<Rightarrow> QString" where
  "fromAscii bytes = bytes"

definition QString_fromByteArray :: "(string \<Rightarrow> QString) \<Rightarrow> string \<Rightarrow> QString" where
  "QString_fromByteArray fromUtf8 bytes = fromUtf8 (takeWhile (\<lambda>b. b \<noteq> CHR 0x00) bytes)"

text \<open>
  One call of the slot: \<open>bytes\<close> is what \<^verbatim>\<open>readAllStandardError\<close> returns, and
  \<open>m_inputLines\<close> the member holding the pieces of the incomplete line. The result is
  the list of commands passed to the worker, in the order of the
  \<^verbatim>\<open>emit passCommandToWorker\<close> calls, and the new value of the member.
\<close>

definition processMouseAlgoStderr ::
    "(string \<Rightarrow> QString) \<Rightarrow> string \<Rightarrow> QString list \<Rightarrow> QString list \<times> QString list" where
  "processMouseAlgoStderr fromUtf8 bytes m_inputLines =
     (let input = QString_fromByteArray fromUtf8 bytes;
          inputLines = QString_split (CHR 0x0A) input;
          first = (if 1 < length inputLines
                   then ([concat m_inputLines @ inputLines ! 0], [])
                   else ([], m_inputLines));
          commands = fst first @ map (\<lambda>i. inputLines ! i) [1 ..< length inputLines - 1];
          m_inputLines' = snd first @ [inputLines ! (length inputLines - 1)]
      in (commands, m_inputLines'))"

text \<open>
  The slot called once per read, each read returning one chunk of the stream, and the
  commands of all calls in order.
\<close>

fun processChunks ::
    "(string \<Rightarrow> QString) \<Rightarrow> string list \<Rightarrow> QString list \<Rightarrow> QString list \<times> QString list" where
  "processChunks fromUtf8 [] m_inputLines = ([], m_inputLines)"
| "processChunks fromUtf8 (chunk # chunks) m_inputLines =
     (let r = processMouseAlgoStderr fromUtf8 chunk m_inputLines;
          rs = processChunks fromUtf8 chunks (snd r)
      in (fst r @ fst rs, snd rs))"

subsection \<open>Start tiles of particular mazes\<close>

text \<open>
  The start tile of a maze with only its outer boundary wall has walls to the south and
  to the west; a sealed start tile has all four.
\<close>

definition openCornerTile :: Tile where
  "openCornerTile d = (d = SOUTH \<or> d = WEST)"

definition enclosedTile :: Tile where
  "enclosedTile d = (d = NORTH \<or> d = EAST \<or> d = SOUTH \<or> d = WEST)"

definition northWalledTile :: Tile where
  "northWalledTile d = (d = NORTH \<or> d = SOUTH \<or> d = WEST)"

subsection \<open>Declared walls of the maze graphic\<close>

text \<open>
  \<^verbatim>\<open>TileGraphic\<close> holds \<^verbatim>\<open>std::map<Direction, bool> m_declaredWalls\<close>: a
  direction is a key when the wall on that edge has been declared, and the value is the
  declared presence. \<^verbatim>\<open>m_tile\<close> and \<^verbatim>\<open>m_color\<close> are pointers to data that
  the declarations do not touch. \<^verbatim>\<open>MazeGraphic\<close> holds
  \<^verbatim>\<open>std::vector<std::vector<TileGraphic>> m_tileGraphics\<close>, indexed by x, then y.
\<close>

record TileGraphic =
  m_text :: string
  m_foggy :: bool
  m_declaredWalls :: "Direction \<rightharpoonup> bool"

type_synonym MazeGraphic = "TileGraphic list list"

definition withinMaze :: "MazeGraphic \<Rightarrow> int \<Rightarrow> int \<Rightarrow> bool" where
  "withinMaze m_tileGraphics x y =
     (0 \<le> x \<and> 0 \<le> y \<and> nat x < length m_tileGraphics
      \<and> nat y < length (m_tileGraphics ! nat x))"

definition tileAt :: "MazeGraphic \<Rightarrow> int \<Rightarrow> int \<Rightarrow> TileGraphic" where
  "tileAt m_tileGraphics x y = m_tileGraphics ! nat x ! nat y"

definition setTileAt :: "MazeGraphic \<Rightarrow> int \<Rightarrow> int \<Rightarrow> TileGraphic \<Rightarrow> MazeGraphic" where
  "setTileAt m_tileGraphics x y t =
     m_tileGraphics[nat x := (m_tileGraphics ! nat x)[nat y := t]]"

text \<open>
  Modelled from the spec: the bodies of \<^verbatim>\<open>TileGraphic::declareWall\<close>,
  \<^verbatim>\<open>TileGraphic::wallDeclared\<close>, \<^verbatim>\<open>MazeGraphic::declareWall\<close> and
  \<^verbatim>\<open>MazeGraphic::wallDeclared\<close> are missing; only their declarations are given.
  Tiles have integer coordinates from a fixed corner, north is the direction of growing y
  and east of growing x. Declaring a wall on one tile's edge is equivalent to declaring
  the corresponding edge on the neighbor: the declaration is stored on both tiles that
  share the edge. A request outside the maze fails and leaves the state as it was.
\<close>

definition TileGraphic_declareWall :: "Direction \<Rightarrow> bool \<Rightarrow> TileGraphic \<Rightarrow> TileGraphic" where
  "TileGraphic_declareWall direction isWall t =
     t\<lparr>m_declaredWalls := (m_declaredWalls t)(direction \<mapsto> isWall)\<rparr>"

definition TileGraphic_wallDeclared :: "Direction \<Rightarrow> TileGraphic \<Rightarrow> bool" where
  "TileGraphic_wallDeclared direction t = (m_declaredWalls t direction \<noteq> None)"

fun opposite :: "Direction \<Rightarrow> Direction" where
  "opposite NORTH = SOUTH"
| "opposite EAST = WEST"
| "opposite SOUTH = NORTH"
| "opposite WEST = EAST"

fun neighborX :: "int \<Rightarrow> Direction \<Rightarrow> int" where
  "neighborX x EAST = x + 1"
| "neighborX x WEST = x - 1"
| "neighborX x d = x"

fun neighborY :: "int \<Rightarrow> Direction \<Rightarrow> int" where
  "neighborY y NORTH = y + 1"
| "neighborY y SOUTH = y - 1"
| "neighborY y d = y"

datatype interface_error = OutsideMaze int int

definition declareWall ::
    "int \<Rightarrow> int \<Rightarrow> Direction \<Rightarrow> bool \<Rightarrow> MazeGraphic \<Rightarrow> interface_error + MazeGraphic" where
  "declareWall x y direction isWall g =
     (if \<not> withinMaze g x y then Inl (OutsideMaze x y)
      else
        let g1 = setTileAt g x y (TileGraphic_declareWall direction isWall (tileAt g x y));
            nx = neighborX x direction;
            ny = neighborY y direction
        in if withinMaze g1 nx ny
           then Inr (setTileAt g1 nx ny
                  (TileGraphic_declareWall (opposite direction) isWall (tileAt g1 nx ny)))
           else Inr g1)"

definition wallDeclared :: "int \<Rightarrow> int \<Rightarrow> Direction \<Rightarrow> MazeGraphic \<Rightarrow> bool" where
  "wallDeclared x y direction g =
     (withinMaze g x y \<and> TileGraphic_wallDeclared direction (tileAt g x y))"

text \<open>A sequence of declarations; a failed one changes nothing and the next one runs.\<close>

fun declareWalls :: "(int \<times> int \<times> Direction \<times> bool) list \<Rightarrow> MazeGraphic \<Rightarrow> MazeGraphic" where
  "declareWalls [] g = g"
| "declareWalls ((x, y, direction, isWall) # ops) g =
     (case declareWall x y direction isWall g of
        Inl e \<Rightarrow> declareWalls ops g
      | Inr g' \<Rightarrow> declareWalls ops g')"

text \<open>
  The invariant: wherever both sides of a shared edge are declared, the two declared
  values are equal.
\<close>

definition wallsAgree :: "MazeGraphic \<Rightarrow> bool" where
  "wallsAgree g =
     (\<forall>x y d a b.
        withinMaze g x y \<and> withinMaze g (neighborX x d) (neighborY y d)
        \<and> m_declaredWalls (tileAt g x y) d = Some a
        \<and> m_declaredWalls (tileAt g (neighborX x d) (neighborY y d)) (opposite d) = Some b
        \<longrightarrow> a = b)"

text \<open>A maze graphic of the given size in which no wall has been declared yet.\<close>

definition freshTileGraphic :: TileGraphic where
  "freshTileGraphic = \<lparr>m_text = [], m_foggy = True, m_declaredWalls = Map.empty\<rparr>"

definition freshMazeGraphic :: "nat \<Rightarrow> nat \<Rightarrow> MazeGraphic" where
  "freshMazeGraphic width height = replicate width (replicate height freshTileGraphic)"

subsection \<open>The bookkeeping record of the search\<close>

text \<open>
  \<^verbatim>\<open>struct Info\<close>: every \<^verbatim>\<open>unsigned char\<close> field is an 8-bit word. The
  \<^verbatim>\<open>float\<close> distance is compared and replaced, and is given by its value. The
  \<^verbatim>\<open>Cell*\<close> parent is an address, or null.
\<close>

type_synonym float = double

record Info =
  sequenceNumber :: "8 word"
  parentPosition :: "8 word"
  distance :: float
  parent :: "nat option"
  sourceDirection :: "8 word"
  straightAwayLength :: "8 word"
  heapIndex :: "8 word"

text \<open>
  Storing an integer into an \<^verbatim>\<open>unsigned char\<close> field converts it: the value kept
  is the integer modulo 256. Epochs are counted from 0; the stamp of an epoch is its
  number as an \<^verbatim>\<open>unsigned char\<close>.
\<close>

definition epochStamp :: "nat \<Rightarrow> 8 word" where
  "epochStamp epoch = of_nat epoch"

definition setSequenceNumber :: "nat \<Rightarrow> Info \<Rightarrow> Info" where
  "setSequenceNumber epoch info = info\<lparr>sequenceNumber := epochStamp epoch\<rparr>"

definition setHeapIndex :: "nat \<Rightarrow> Info \<Rightarrow> Info" where
  "setHeapIndex slot info = info\<lparr>heapIndex := of_nat slot\<rparr>"







subsection \<open>A concrete environment\<close>

text \<open>
  Three algorithm directories: one that builds, one without \<^verbatim>\<open>Main.cpp\<close>, one whose
  build fails. The mouse file \<^verbatim>\<open>mouse.xml\<close> initializes a mouse that is compatible
  with the discrete interface only.
\<close>

definition exampleFileSystem :: FileSystem where
  "exampleFileSystem =
     \<lparr>getSrcMouseAlgosDirectory = ''algos/'',
      getTopLevelDirs = (\<lambda>dir. [''Good'', ''NoMain'', ''Broken'']),
      getFiles = (\<lambda>path. if path = ''algos/NoMain''
                         then ([''Other.cpp''], [''algos/NoMain/Other.cpp''])
                         else ([''Main.cpp''], [path @ ''/Main.cpp''])),
      buildExitCode = (\<lambda>args. if ''algos/Broken/Main.cpp'' \<in> set args then 1 else 0),
      buildStandardError = (\<lambda>args. ''error: expected declaration'')\<rparr>"

definition exampleModel :: MouseModel where
  "exampleModel =
     \<lparr>startTile = openCornerTile,
      initialize = (\<lambda>file direction. file = ''mouse.xml''),
      isDiscreteInterfaceCompatible = (\<lambda>file. True),
      isContinuousInterfaceCompatible = (\<lambda>file. False)\<rparr>"

definition exampleOptions :: StaticMouseAlgorithmOptions where
  "exampleOptions =
     \<lparr>mouseFile = ''mouse.xml'', interfaceType = ''DISCRETE'',
      initialDirection = ''OPENING'', tileTextNumberOfRows = 2, tileTextNumberOfCols = 3,
      wheelSpeedFraction = Finite 1\<rparr>"

text \<open>The options become final after \<open>k\<close> rounds of the polling loop.\<close>

definition finalizedAfter ::
    "nat \<Rightarrow> StaticMouseAlgorithmOptions \<Rightarrow> nat \<Rightarrow> StaticMouseAlgorithmOptions option" where
  "finalizedAfter k opts n = (if n < k then None else Some opts)"



section \<open>Properties\<close>

subsection \<open>Splitting into lines\<close>

lemma QString_split_nonempty: "QString_split sep s \<noteq> []"
  by (induction s) auto

lemma QString_split_no_separator: "sep \<notin> set s \<Longrightarrow> QString_split sep s = [s]"
  by (induction s) auto

lemma QString_split_separator:
  "sep \<in> set s \<Longrightarrow>
   1 < length (QString_split sep s) \<and> hd (QString_split sep s) = takeWhile (\<lambda>c. c \<noteq> sep) s"
proof (induction s)
  case Nil
  then show ?case by simp
next
  case (Cons c s)
  obtain l ls where L: "QString_split sep s = l # ls"
    using QString_split_nonempty [of sep s] by (cases "QString_split sep s") auto
  show ?case
  proof (cases "c = sep")
    case True
    then show ?thesis by (simp add: L)
  next
    case False
    then have "sep \<in> set s" using Cons.prems by simp
    then show ?thesis using Cons.IH False L by simp
  qed
qed

lemma QString_split_append:
  "QString_split sep (a @ b) =
     butlast (QString_split sep a) @ [last (QString_split sep a) @ hd (QString_split sep b)]
       @ tl (QString_split sep b)"
proof (induction a)
  case Nil
  then show ?case
    using QString_split_nonempty [of sep b] by (cases "QString_split sep b") auto
next
  case (Cons c a)
  show ?case
  proof (cases "c = sep")
    case True
    then show ?thesis using Cons QString_split_nonempty [of sep a] by simp
  next
    case False
    obtain x xs where L: "QString_split sep a = x # xs"
      using QString_split_nonempty [of sep a] by (cases "QString_split sep a") auto
    show ?thesis using False Cons L by (cases xs) auto
  qed
qed

subsection \<open>One call of the framing slot\<close>

lemma middle_lines: "map (\<lambda>i. L ! i) [Suc 0 ..< length L - Suc 0] = butlast (tl L)"
  by (rule nth_equalityI) (auto simp: nth_butlast nth_tl)

lemma commands_of_step:
  assumes "QString_fromByteArray decode bytes = input"
  shows "fst (processMouseAlgoStderr decode bytes m) =
     (if 1 < length (QString_split (CHR 0x0A) input)
      then (concat m @ hd (QString_split (CHR 0x0A) input))
             # butlast (tl (QString_split (CHR 0x0A) input))
      else [])"
proof -
  obtain x xs where L: "QString_split (CHR 0x0A) input = x # xs"
    using QString_split_nonempty [of "CHR 0x0A" input]
    by (cases "QString_split (CHR 0x0A) input") auto
  have "map (\<lambda>i. (x # xs) ! i) [Suc 0 ..< length (x # xs) - Suc 0] = butlast (tl (x # xs))"
    by (rule middle_lines)
  then show ?thesis
    by (cases xs) (simp_all add: processMouseAlgoStderr_def Let_def assms L del: upt_Suc)
qed

lemma pending_of_step:
  assumes "QString_fromByteArray decode bytes = input"
  shows "concat (snd (processMouseAlgoStderr decode bytes m)) =
     (if 1 < length (QString_split (CHR 0x0A) input)
      then last (QString_split (CHR 0x0A) input)
      else concat m @ last (QString_split (CHR 0x0A) input))"
proof -
  obtain x xs where L: "QString_split (CHR 0x0A) input = x # xs"
    using QString_split_nonempty [of "CHR 0x0A" input]
    by (cases "QString_split (CHR 0x0A) input") auto
  show ?thesis
    by (cases xs rule: rev_cases)
       (simp_all add: processMouseAlgoStderr_def Let_def assms L nth_append)
qed

text \<open>
  Two reads against one: where the conversion of the joined bytes is the two conversions
  joined, the two calls pass the commands of the one call and leave the same incomplete
  line.
\<close>

lemma two_steps:
  assumes A: "QString_fromByteArray decode a = ta"
    and B: "QString_fromByteArray decode b = tb"
    and AB: "QString_fromByteArray decode (a @ b) = ta @ tb"
  shows "fst (processMouseAlgoStderr decode a m)
           @ fst (processMouseAlgoStderr decode b (snd (processMouseAlgoStderr decode a m)))
         = fst (processMouseAlgoStderr decode (a @ b) m)"
    and "concat (snd (processMouseAlgoStderr decode b (snd (processMouseAlgoStderr decode a m))))
         = concat (snd (processMouseAlgoStderr decode (a @ b) m))"
proof -
  obtain x xs where LA: "QString_split (CHR 0x0A) ta = x # xs"
    using QString_split_nonempty [of "CHR 0x0A" ta] by (cases "QString_split (CHR 0x0A) ta") auto
  obtain y ys where LB: "QString_split (CHR 0x0A) tb = y # ys"
    using QString_split_nonempty [of "CHR 0x0A" tb] by (cases "QString_split (CHR 0x0A) tb") auto
  show "fst (processMouseAlgoStderr decode a m)
           @ fst (processMouseAlgoStderr decode b (snd (processMouseAlgoStderr decode a m)))
         = fst (processMouseAlgoStderr decode (a @ b) m)"
    unfolding commands_of_step [OF A] commands_of_step [OF B] commands_of_step [OF AB]
      pending_of_step [OF A] QString_split_append LA LB
    by (cases xs rule: rev_cases; cases ys rule: rev_cases) (auto simp: butlast_append)
  show "concat (snd (processMouseAlgoStderr decode b (snd (processMouseAlgoStderr decode a m))))
         = concat (snd (processMouseAlgoStderr decode (a @ b) m))"
    unfolding pending_of_step [OF A] pending_of_step [OF B] pending_of_step [OF AB]
      QString_split_append LA LB
    by (cases xs rule: rev_cases; cases ys rule: rev_cases) (auto simp: butlast_append)
qed

lemma fromByteArray_ascii_without_zero:
  "CHR 0x00 \<notin> set bytes \<Longrightarrow> QString_fromByteArray fromAscii bytes = bytes"
  by (auto simp: QString_fromByteArray_def fromAscii_def takeWhile_eq_all_conv)

text \<open>
  On ASCII chunks without a zero byte the slot does reassemble the lines: the calls, one
  per chunk, pass the same commands in the same order as one call on the whole stream and
  leave the same incomplete line; a chunk without a newline passes no command and is
  appended to the buffer.
\<close>

lemma processChunks_ascii_without_zero:
  assumes "\<forall>chunk \<in> set chunks. CHR 0x00 \<notin> set chunk"
  shows "fst (processChunks fromAscii chunks m)
           = fst (processMouseAlgoStderr fromAscii (concat chunks) m)
         \<and> concat (snd (processChunks fromAscii chunks m))
           = concat (snd (processMouseAlgoStderr fromAscii (concat chunks) m))"
  using assms
proof (induction chunks arbitrary: m)
  case Nil
  have "QString_fromByteArray fromAscii [] = []"
    by (simp add: fromByteArray_ascii_without_zero)
  then show ?case
    by (simp add: commands_of_step pending_of_step)
next
  case (Cons c cs)
  have c: "QString_fromByteArray fromAscii c = c"
    using Cons.prems by (simp add: fromByteArray_ascii_without_zero)
  have cs: "QString_fromByteArray fromAscii (concat cs) = concat cs"
    using Cons.prems by (simp add: fromByteArray_ascii_without_zero)
  have ccs: "QString_fromByteArray fromAscii (c @ concat cs) = c @ concat cs"
    using Cons.prems by (simp add: fromByteArray_ascii_without_zero)
  have IH: "fst (processChunks fromAscii cs m')
              = fst (processMouseAlgoStderr fromAscii (concat cs) m')
            \<and> concat (snd (processChunks fromAscii cs m'))
              = concat (snd (processMouseAlgoStderr fromAscii (concat cs) m'))" for m'
    using Cons.IH [of m'] Cons.prems by simp
  show ?case
    using IH two_steps [OF c cs ccs, of m] by (simp add: Let_def)
qed

lemma fragment_buffered:
  assumes "CHR 0x00 \<notin> set fragment" and "CHR 0x0A \<notin> set fragment"
  shows "processMouseAlgoStderr fromAscii fragment m = ([], m @ [fragment])"
  using assms
  by (simp add: processMouseAlgoStderr_def Let_def fromByteArray_ascii_without_zero
        QString_split_no_separator)

lemma buffer_prefixed:
  assumes "CHR 0x00 \<notin> set following" and "CHR 0x0A \<in> set following"
  shows "\<exists>rest. fst (processMouseAlgoStderr fromAscii following m)
           = (concat m @ takeWhile (\<lambda>c. c \<noteq> CHR 0x0A) following) # rest"
proof -
  have conv: "QString_fromByteArray fromAscii following = following"
    using assms(1) by (rule fromByteArray_ascii_without_zero)
  have "1 < length (QString_split (CHR 0x0A) following)"
    and "hd (QString_split (CHR 0x0A) following) = takeWhile (\<lambda>c. c \<noteq> CHR 0x0A) following"
    using QString_split_separator [OF assms(2)] by simp_all
  then show ?thesis
    by (simp add: commands_of_step [OF conv])
qed

text \<open>
  Claim C1: the commands passed to the worker do not depend on how the diagnostic stream
  is cut into chunks. It fails on a stream with a zero byte in a line. Read in two chunks,
  the first ending with its line, the conversion of the first read stops at the zero, the
  rest of that line and its newline are dropped, and what is left is joined with the next
  line into one command; read as one chunk, everything after the zero is dropped and no
  command is passed at all.
\<close>

theorem processMouseAlgoStderr_zero_byte_breaks_chunking:
  "fst (processChunks fromAscii [[CHR ''a'', CHR 0x00, CHR ''b'', CHR 0x0A], ''c\<newline>''] [])
     = [''ac'']
   \<and> fst (processMouseAlgoStderr fromAscii
            (concat [[CHR ''a'', CHR 0x00, CHR ''b'', CHR 0x0A], ''c\<newline>'']) [])
     = []"
  by (simp add: processMouseAlgoStderr_def QString_fromByteArray_def fromAscii_def Let_def)

subsection \<open>The initial direction\<close>

lemmas table_defs = contains_def STRING_TO_DIRECTION_def STRING_TO_INTERFACE_TYPE_def
  OPENING_DIRECTION_STRING_def WALL_DIRECTION_STRING_def direction_value_def
  interface_value_def

lemmas tile_defs = openCornerTile_def enclosedTile_def northWalledTile_def

text \<open>
  Claim C3, as stated, fails. In the maze with only its outer boundary wall the start tile
  has no wall to the north or east, and the policy that faces the wall resolves to north,
  where there is no wall; on a sealed start tile the policy that faces the opening resolves
  to north, where there is a wall.
\<close>

theorem getInitialDirection_policy_counterexample:
  "\<not> openCornerTile
       (getInitialDirection STRING_TO_DIRECTION WALL_DIRECTION_STRING openCornerTile)
   \<and> enclosedTile
       (getInitialDirection STRING_TO_DIRECTION OPENING_DIRECTION_STRING enclosedTile)"
  by (simp add: getInitialDirection_def table_defs tile_defs)

text \<open>
  Claim C3, amended. When the north and east walls of the start tile differ, the opening
  policy resolves to a direction without a wall and the wall policy to a direction with a
  wall. When they agree, both policies resolve to north, the policy names not being
  cardinal directions. A declared direction that is neither a cardinal direction nor a
  policy is rejected by the validation, and the constructor of the Controller then
  terminates the simulator.
\<close>

theorem getInitialDirection_policy_amended:
  "(isWall NORTH \<noteq> isWall EAST \<longrightarrow>
      \<not> isWall (getInitialDirection s2d OPENING_DIRECTION_STRING isWall)
      \<and> isWall (getInitialDirection s2d WALL_DIRECTION_STRING isWall))
   \<and> (\<not> contains s2d OPENING_DIRECTION_STRING \<and> \<not> contains s2d WALL_DIRECTION_STRING
        \<and> isWall NORTH = isWall EAST \<longrightarrow>
      getInitialDirection s2d OPENING_DIRECTION_STRING isWall = NORTH
      \<and> getInitialDirection s2d WALL_DIRECTION_STRING isWall = NORTH)
   \<and> (\<not> contains s2d declared \<and> declared \<noteq> OPENING_DIRECTION_STRING
        \<and> declared \<noteq> WALL_DIRECTION_STRING \<longrightarrow>
      validateMouseInitialDirection s2d alg declared
        = Some (InvalidInitialDirection declared alg))
   \<and> (waitForStaticOptions finalized 0 = Some opts
        \<and> validateMouseInitialDirection s2d alg (initialDirection opts) \<noteq> None \<longrightarrow>
      (\<exists>q. Controller s2d s2i alg fs finalized model = Some (Inl q)))"
proof -
  have differ: "isWall NORTH \<noteq> isWall EAST \<longrightarrow>
      \<not> isWall (getInitialDirection s2d OPENING_DIRECTION_STRING isWall)
      \<and> isWall (getInitialDirection s2d WALL_DIRECTION_STRING isWall)"
    by (auto simp: getInitialDirection_def OPENING_DIRECTION_STRING_def
          WALL_DIRECTION_STRING_def)
  have agree: "\<not> contains s2d OPENING_DIRECTION_STRING \<and> \<not> contains s2d WALL_DIRECTION_STRING
        \<and> isWall NORTH = isWall EAST \<longrightarrow>
      getInitialDirection s2d OPENING_DIRECTION_STRING isWall = NORTH
      \<and> getInitialDirection s2d WALL_DIRECTION_STRING isWall = NORTH"
    by (simp add: getInitialDirection_def)
  have rejected: "\<not> contains s2d declared \<and> declared \<noteq> OPENING_DIRECTION_STRING
        \<and> declared \<noteq> WALL_DIRECTION_STRING \<longrightarrow>
      validateMouseInitialDirection s2d alg declared
        = Some (InvalidInitialDirection declared alg)"
    by (simp add: validateMouseInitialDirection_def)
  have terminated: "waitForStaticOptions finalized 0 = Some opts
        \<and> validateMouseInitialDirection s2d alg (initialDirection opts) \<noteq> None \<longrightarrow>
      (\<exists>q. Controller s2d s2i alg fs finalized model = Some (Inl q))"
    by (auto simp: Controller_def quit_def split: sum.splits option.splits)
  show ?thesis
    using differ agree rejected terminated by (intro conjI)
qed

subsection \<open>The polling loop\<close>

text \<open>
  The loop returns as soon as the options are final: if they are final at the \<open>k\<close>-th
  test after the \<open>n\<close>-th and at none before, the loop started at \<open>n\<close> returns them.
\<close>

lemma waitForStaticOptions_returns:
  "finalized (n + k) = Some opts \<Longrightarrow> (\<forall>i<k. finalized (n + i) = None) \<Longrightarrow>
   waitForStaticOptions finalized n = Some opts"
proof (induction k arbitrary: n)
  case 0
  then show ?case by (subst waitForStaticOptions.simps) simp
next
  case (Suc k)
  have "finalized n = None" using Suc.prems(2) [rule_format, of 0] by simp
  moreover have "waitForStaticOptions finalized (Suc n) = Some opts"
  proof (rule Suc.IH)
    show "finalized (Suc n + k) = Some opts" using Suc.prems(1) by simp
    show "\<forall>i<k. finalized (Suc n + i) = None"
      using Suc.prems(2) by (metis Suc_less_eq add_Suc_shift)
  qed
  ultimately show ?case by (subst waitForStaticOptions.simps) simp
qed

lemma wait_finalizedAfter: "waitForStaticOptions (finalizedAfter k opts) 0 = Some opts"
  using waitForStaticOptions_returns [of "finalizedAfter k opts" 0 k opts]
  by (simp add: finalizedAfter_def)

lemmas env_defs = sublist_code startMouseAlgorithm_def exampleFileSystem_def buildArgs_def
  quit_def Let_def exampleOptions_def validateMouseInterfaceType_def
  validateMouseInitialDirection_def validateTileTextRowsAndCols_def
  validateMouseWheelSpeedFraction_def initAndValidateMouse_def exampleModel_def
  getInitialDirection_def

theorem getInitialDirection_policy_amended_witness:
  "northWalledTile NORTH \<noteq> northWalledTile EAST
   \<and> \<not> northWalledTile
         (getInitialDirection STRING_TO_DIRECTION OPENING_DIRECTION_STRING northWalledTile)
   \<and> northWalledTile
         (getInitialDirection STRING_TO_DIRECTION WALL_DIRECTION_STRING northWalledTile)
   \<and> getInitialDirection STRING_TO_DIRECTION OPENING_DIRECTION_STRING northWalledTile = EAST
   \<and> \<not> contains STRING_TO_DIRECTION OPENING_DIRECTION_STRING
   \<and> \<not> contains STRING_TO_DIRECTION WALL_DIRECTION_STRING
   \<and> openCornerTile NORTH = openCornerTile EAST
   \<and> getInitialDirection STRING_TO_DIRECTION OPENING_DIRECTION_STRING openCornerTile = NORTH
   \<and> getInitialDirection STRING_TO_DIRECTION WALL_DIRECTION_STRING openCornerTile = NORTH
   \<and> \<not> contains STRING_TO_DIRECTION ''UP''
   \<and> validateMouseInitialDirection STRING_TO_DIRECTION ''Good'' ''UP''
       = Some (InvalidInitialDirection ''UP'' ''Good'')
   \<and> waitForStaticOptions (finalizedAfter 2 (exampleOptions\<lparr>initialDirection := ''UP''\<rparr>)) 0
       = Some (exampleOptions\<lparr>initialDirection := ''UP''\<rparr>)
   \<and> Controller STRING_TO_DIRECTION STRING_TO_INTERFACE_TYPE ''Good'' exampleFileSystem
         (finalizedAfter 2 (exampleOptions\<lparr>initialDirection := ''UP''\<rparr>)) exampleModel
       = Some (Inl (InvalidInitialDirection ''UP'' ''Good'',
                    [Build [''algos/Good/Main.cpp'', ''-g'', ''-o'', ''algos/Good/a.out''],
                     StartProcess ''algos/Good/a.out'']))"
  using getInitialDirection_policy_amended
          [where isWall = northWalledTile and ?s2d = STRING_TO_DIRECTION and declared = "''UP''"
             and alg = "''Good''"
             and finalized = "finalizedAfter 2 (exampleOptions\<lparr>initialDirection := ''UP''\<rparr>)"
             and opts = "exampleOptions\<lparr>initialDirection := ''UP''\<rparr>"
             and ?s2i = STRING_TO_INTERFACE_TYPE and fs = exampleFileSystem
             and model = exampleModel]
        getInitialDirection_policy_amended
          [where isWall = openCornerTile and ?s2d = STRING_TO_DIRECTION]
  by (simp add: Controller_def wait_finalizedAfter env_defs table_defs tile_defs)

text \<open>
  Claim C10. When the declared initial direction is one of the two policies, which are not
  cardinal directions, and the north and east walls of the start tile agree, the initial
  direction is north: for both policies and whatever the south and west walls are.
\<close>

theorem getInitialDirection_agreeing_walls_north:
  assumes "declared = OPENING_DIRECTION_STRING \<or> declared = WALL_DIRECTION_STRING"
    and "\<not> contains s2d declared"
    and "isWall NORTH = isWall EAST"
  shows "getInitialDirection s2d declared isWall = NORTH"
  using assms by (simp add: getInitialDirection_def)

theorem getInitialDirection_agreeing_walls_north_witness:
  "\<not> contains STRING_TO_DIRECTION OPENING_DIRECTION_STRING
   \<and> \<not> contains STRING_TO_DIRECTION WALL_DIRECTION_STRING
   \<and> enclosedTile NORTH = enclosedTile EAST
   \<and> openCornerTile NORTH = openCornerTile EAST
   \<and> getInitialDirection STRING_TO_DIRECTION OPENING_DIRECTION_STRING enclosedTile = NORTH
   \<and> getInitialDirection STRING_TO_DIRECTION WALL_DIRECTION_STRING enclosedTile = NORTH
   \<and> getInitialDirection STRING_TO_DIRECTION OPENING_DIRECTION_STRING openCornerTile = NORTH
   \<and> getInitialDirection STRING_TO_DIRECTION WALL_DIRECTION_STRING openCornerTile = NORTH"
proof -
  have cardinal: "\<not> contains STRING_TO_DIRECTION OPENING_DIRECTION_STRING"
    "\<not> contains STRING_TO_DIRECTION WALL_DIRECTION_STRING"
    by (simp_all add: table_defs)
  have walls: "enclosedTile NORTH = enclosedTile EAST" "openCornerTile NORTH = openCornerTile EAST"
    by (simp_all add: tile_defs)
  show ?thesis
    using cardinal walls
      getInitialDirection_agreeing_walls_north [OF _ cardinal(1) walls(1)]
      getInitialDirection_agreeing_walls_north [OF _ cardinal(2) walls(1)]
      getInitialDirection_agreeing_walls_north [OF _ cardinal(1) walls(2)]
      getInitialDirection_agreeing_walls_north [OF _ cardinal(2) walls(2)]
    by simp
qed

subsection \<open>The wheel speed fraction\<close>

text \<open>
  Claim C5. The wheel speed fraction passes the validation exactly when it lies in the
  closed interval from 0.0 to 1.0, both ends included; any other value, NaN and the
  infinities among them, is rejected, and the constructor of the Controller then
  terminates the simulator.
\<close>

theorem validateMouseWheelSpeedFraction_unit_interval:
  "validateMouseWheelSpeedFraction alg x
     = (if in_unit_interval x then None else Some (InvalidWheelSpeedFraction x alg))
   \<and> validateMouseWheelSpeedFraction alg (Finite 0) = None
   \<and> validateMouseWheelSpeedFraction alg (Finite 1) = None
   \<and> (waitForStaticOptions finalized 0 = Some opts
        \<and> \<not> in_unit_interval (wheelSpeedFraction opts) \<longrightarrow>
      (\<exists>q. Controller s2d s2i alg fs finalized model = Some (Inl q)))"
proof -
  have decided: "validateMouseWheelSpeedFraction a y
     = (if in_unit_interval y then None else Some (InvalidWheelSpeedFraction y a))" for a y
    by (cases y) (simp_all add: validateMouseWheelSpeedFraction_def)
  have terminated: "waitForStaticOptions finalized 0 = Some opts
        \<and> \<not> in_unit_interval (wheelSpeedFraction opts) \<longrightarrow>
      (\<exists>q. Controller s2d s2i alg fs finalized model = Some (Inl q))"
    by (auto simp: Controller_def quit_def decided split: sum.splits option.splits)
  show ?thesis
    using decided [of alg x] decided [of alg "Finite 0"] decided [of alg "Finite 1"] terminated
    by simp
qed

theorem validateMouseWheelSpeedFraction_unit_interval_witness:
  "validateMouseWheelSpeedFraction ''Good'' (Finite (1 / 2)) = None
   \<and> validateMouseWheelSpeedFraction ''Good'' (Finite (3 / 2))
       = Some (InvalidWheelSpeedFraction (Finite (3 / 2)) ''Good'')
   \<and> validateMouseWheelSpeedFraction ''Good'' (Finite (- 1 / 10))
       = Some (InvalidWheelSpeedFraction (Finite (- 1 / 10)) ''Good'')
   \<and> validateMouseWheelSpeedFraction ''Good'' NaN = Some (InvalidWheelSpeedFraction NaN ''Good'')
   \<and> waitForStaticOptions
         (finalizedAfter 1 (exampleOptions\<lparr>wheelSpeedFraction := Finite (3 / 2)\<rparr>)) 0
       = Some (exampleOptions\<lparr>wheelSpeedFraction := Finite (3 / 2)\<rparr>)
   \<and> \<not> in_unit_interval (Finite (3 / 2))
   \<and> Controller STRING_TO_DIRECTION STRING_TO_INTERFACE_TYPE ''Good'' exampleFileSystem
         (finalizedAfter 1 (exampleOptions\<lparr>wheelSpeedFraction := Finite (3 / 2)\<rparr>))
         exampleModel
       = Some (Inl (InvalidWheelSpeedFraction (Finite (3 / 2)) ''Good'',
                    [Build [''algos/Good/Main.cpp'', ''-g'', ''-o'', ''algos/Good/a.out''],
                     StartProcess ''algos/Good/a.out'']))"
  using validateMouseWheelSpeedFraction_unit_interval
          [where alg = "''Good''" and x = "Finite (1 / 2)"
             and finalized = "finalizedAfter 1 (exampleOptions\<lparr>wheelSpeedFraction := Finite (3 / 2)\<rparr>)"
             and opts = "exampleOptions\<lparr>wheelSpeedFraction := Finite (3 / 2)\<rparr>"
             and ?s2d = STRING_TO_DIRECTION
             and ?s2i = STRING_TO_INTERFACE_TYPE and fs = exampleFileSystem
             and model = exampleModel]
        validateMouseWheelSpeedFraction_unit_interval
          [where alg = "''Good''" and x = "Finite (3 / 2)"]
        validateMouseWheelSpeedFraction_unit_interval
          [where alg = "''Good''" and x = "Finite (- 1 / 10)"]
        validateMouseWheelSpeedFraction_unit_interval
          [where alg = "''Good''" and x = NaN]
  by (simp add: Controller_def wait_finalizedAfter env_defs table_defs tile_defs)

subsection \<open>Fatal conditions of the start-up\<close>

lemma startMouseAlgorithm_loads_no_mouse:
  "startMouseAlgorithm fs alg [] = Inl (f, tr) \<Longrightarrow> \<not> (\<exists>e \<in> set tr. loadsMouseFile e)"
  "startMouseAlgorithm fs alg [] = Inr tr \<Longrightarrow> \<not> (\<exists>e \<in> set tr. loadsMouseFile e)"
  by (auto simp: startMouseAlgorithm_def quit_def Let_def split: if_splits)

text \<open>
  In the constructor of the Controller every static option is validated before the mouse
  is initialized: an invalid option terminates the simulator, and the trace up to the
  termination has no load of a mouse file.
\<close>

lemma Controller_invalid_option:
  assumes "waitForStaticOptions finalized 0 = Some opts"
    and "validateMouseInterfaceType s2i alg (interfaceType opts) \<noteq> None
         \<or> validateMouseInitialDirection s2d alg (initialDirection opts) \<noteq> None
         \<or> validateTileTextRowsAndCols alg (tileTextNumberOfRows opts)
              (tileTextNumberOfCols opts) \<noteq> None
         \<or> validateMouseWheelSpeedFraction alg (wheelSpeedFraction opts) \<noteq> None"
  shows "\<exists>f tr. Controller s2d s2i alg fs finalized model = Some (Inl (f, tr))
           \<and> \<not> (\<exists>e \<in> set tr. loadsMouseFile e)"
proof (cases "startMouseAlgorithm fs alg []")
  case (Inl q)
  obtain f tr where q: "q = (f, tr)" by (cases q)
  show ?thesis
    using Inl q startMouseAlgorithm_loads_no_mouse(1) [of fs alg f tr]
    by (simp add: Controller_def)
next
  case (Inr tr)
  have "\<not> (\<exists>e \<in> set tr. loadsMouseFile e)"
    using Inr by (rule startMouseAlgorithm_loads_no_mouse(2))
  then show ?thesis
    using Inr assms by (auto simp: Controller_def quit_def split: option.splits)
qed

lemma Controller_invalid_interface_type:
  assumes "waitForStaticOptions finalized 0 = Some opts"
    and "\<not> contains s2i (interfaceType opts)"
  shows "\<exists>f tr. Controller s2d s2i alg fs finalized model = Some (Inl (f, tr))
           \<and> \<not> (\<exists>e \<in> set tr. loadsMouseFile e)"
  using assms Controller_invalid_option [of finalized opts s2i alg s2d fs model]
  by (simp add: validateMouseInterfaceType_def)

text \<open>
  \<^verbatim>\<open>solve()\<close> of \<^verbatim>\<open>Main.cpp\<close> checks in another order: the mouse is initialized
  from the file first, the declared interface type is looked up after.
\<close>

lemma solve_invalid_interface_type:
  assumes "algorithms (P_mouseAlgorithm P) = Some algorithm"
    and "g_mouse_initialize (algo_mouseFile algorithm)"
    and "\<not> contains s2i (algo_interfaceType algorithm)"
  shows "solve s2d s2i P algorithms g_mouse_initialize
           = Inl (InvalidInterfaceType (algo_interfaceType algorithm) (P_mouseAlgorithm P),
                  [MouseInitialize (algo_mouseFile algorithm) None])"
  using assms by (simp add: solve_def quit_def contains_def Let_def)

text \<open>
  Claim C2: a declared interface type that is not a recognized one terminates the
  simulator before any mouse file is loaded. It holds for the constructor of the
  Controller, by \<open>Controller_invalid_interface_type\<close>, and fails for
  \<^verbatim>\<open>solve()\<close>: with an algorithm that declares the interface type
  \<^verbatim>\<open>SIDEWAYS\<close> and a mouse file that loads, the simulator terminates on the
  interface type after the mouse has been initialized from the file.
\<close>

theorem solve_initializes_mouse_before_interface_check:
  "solve STRING_TO_DIRECTION STRING_TO_INTERFACE_TYPE
     \<lparr>P_mouseAlgorithm = ''Good'', P_discreteInterfaceUnfogTileOnEntry = True,
       P_mouseStartingDirection = ''NORTH''\<rparr>
     [''Good'' \<mapsto> \<lparr>algo_mouseFile = ''mouse.xml'', algo_interfaceType = ''SIDEWAYS''\<rparr>]
     (\<lambda>file. file = ''mouse.xml'')
   = Inl (InvalidInterfaceType ''SIDEWAYS'' ''Good'', [MouseInitialize ''mouse.xml'' None])
   \<and> loadsMouseFile (MouseInitialize ''mouse.xml'' None)"
  by (simp add: solve_def quit_def STRING_TO_INTERFACE_TYPE_def)

text \<open>
  Claim C6. Each of these terminates the simulator with its own fatal condition and no
  Controller is constructed: a mouse algorithm name that is not a directory of the
  algorithms directory; no \<^verbatim>\<open>Main.cpp\<close> among the files of the algorithm; a build
  that exits with a code other than zero; a mouse that fails to initialize from the mouse
  file.
\<close>

theorem Controller_fatal_conditions:
  "(alg \<notin> set (getTopLevelDirs fs (getSrcMouseAlgosDirectory fs)) \<longrightarrow>
      Controller s2d s2i alg fs finalized model = Some (Inl (InvalidMouseAlgorithm alg, [])))
   \<and> (alg \<in> set (getTopLevelDirs fs (getSrcMouseAlgosDirectory fs))
       \<and> ''Main.cpp'' \<notin> set (fst (getFiles fs (getSrcMouseAlgosDirectory fs @ alg))) \<longrightarrow>
      Controller s2d s2i alg fs finalized model
        = Some (Inl (NoMainFile (getSrcMouseAlgosDirectory fs @ alg), [])))
   \<and> (alg \<in> set (getTopLevelDirs fs (getSrcMouseAlgosDirectory fs))
       \<and> ''Main.cpp'' \<in> set (fst (getFiles fs (getSrcMouseAlgosDirectory fs @ alg)))
       \<and> args = buildArgs (snd (getFiles fs (getSrcMouseAlgosDirectory fs @ alg)))
                   ((getSrcMouseAlgosDirectory fs @ alg) @ ''/a.out'')
       \<and> buildExitCode fs args \<noteq> 0 \<longrightarrow>
      Controller s2d s2i alg fs finalized model
        = Some (Inl (BuildFailed (buildStandardError fs args), [Build args])))
   \<and> (\<not> initialize model file (getInitialDirection s2d declared (startTile model)) \<longrightarrow>
      initAndValidateMouse s2d s2i alg file itype declared model tr
        = Inl (MouseInitFailed alg file,
               tr @ [MouseInitialize file
                       (Some (getInitialDirection s2d declared (startTile model)))]))
   \<and> (waitForStaticOptions finalized 0 = Some opts
       \<and> \<not> initialize model (mouseFile opts)
             (getInitialDirection s2d (initialDirection opts) (startTile model)) \<longrightarrow>
      (\<exists>q. Controller s2d s2i alg fs finalized model = Some (Inl q)))"
proof -
  have unknown: "alg \<notin> set (getTopLevelDirs fs (getSrcMouseAlgosDirectory fs)) \<longrightarrow>
      Controller s2d s2i alg fs finalized model = Some (Inl (InvalidMouseAlgorithm alg, []))"
    by (simp add: Controller_def startMouseAlgorithm_def quit_def)
  have no_main: "alg \<in> set (getTopLevelDirs fs (getSrcMouseAlgosDirectory fs))
       \<and> ''Main.cpp'' \<notin> set (fst (getFiles fs (getSrcMouseAlgosDirectory fs @ alg))) \<longrightarrow>
      Controller s2d s2i alg fs finalized model
        = Some (Inl (NoMainFile (getSrcMouseAlgosDirectory fs @ alg), []))"
    by (simp add: Controller_def startMouseAlgorithm_def quit_def Let_def)
  have build: "alg \<in> set (getTopLevelDirs fs (getSrcMouseAlgosDirectory fs))
       \<and> ''Main.cpp'' \<in> set (fst (getFiles fs (getSrcMouseAlgosDirectory fs @ alg)))
       \<and> args = buildArgs (snd (getFiles fs (getSrcMouseAlgosDirectory fs @ alg)))
                   ((getSrcMouseAlgosDirectory fs @ alg) @ ''/a.out'')
       \<and> buildExitCode fs args \<noteq> 0 \<longrightarrow>
      Controller s2d s2i alg fs finalized model
        = Some (Inl (BuildFailed (buildStandardError fs args), [Build args]))"
    by (auto simp: Controller_def startMouseAlgorithm_def quit_def Let_def)
  have init_rule: "initAndValidateMouse s2d s2i alg f t d model r
        = Inl (MouseInitFailed alg f,
               r @ [MouseInitialize f (Some (getInitialDirection s2d d (startTile model)))])"
    if "\<not> initialize model f (getInitialDirection s2d d (startTile model))" for f d t r
    using that by (simp add: initAndValidateMouse_def quit_def Let_def)
  have init: "\<not> initialize model f (getInitialDirection s2d d (startTile model)) \<longrightarrow>
      initAndValidateMouse s2d s2i alg f t d model r
        = Inl (MouseInitFailed alg f,
               r @ [MouseInitialize f (Some (getInitialDirection s2d d (startTile model)))])"
    for f d t r
    by (simp add: init_rule)
  have terminated_rule: "\<exists>q. Controller s2d s2i alg fs finalized model = Some (Inl q)"
    if "waitForStaticOptions finalized 0 = Some opts"
      and "\<not> initialize model (mouseFile opts)
             (getInitialDirection s2d (initialDirection opts) (startTile model))"
    using that
    by (auto simp: Controller_def quit_def init_rule split: sum.splits option.splits)
  have terminated: "waitForStaticOptions finalized 0 = Some opts
       \<and> \<not> initialize model (mouseFile opts)
             (getInitialDirection s2d (initialDirection opts) (startTile model)) \<longrightarrow>
      (\<exists>q. Controller s2d s2i alg fs finalized model = Some (Inl q))"
    using terminated_rule by blast
  show ?thesis
    using unknown no_main build init [of "file" declared itype tr] terminated
    by (intro conjI)
qed

theorem Controller_fatal_conditions_witness:
  "''Unknown'' \<notin> set (getTopLevelDirs exampleFileSystem
                        (getSrcMouseAlgosDirectory exampleFileSystem))
   \<and> Controller STRING_TO_DIRECTION STRING_TO_INTERFACE_TYPE ''Unknown'' exampleFileSystem
         (finalizedAfter 1 exampleOptions) exampleModel
       = Some (Inl (InvalidMouseAlgorithm ''Unknown'', []))
   \<and> ''Main.cpp'' \<notin> set (fst (getFiles exampleFileSystem ''algos/NoMain''))
   \<and> Controller STRING_TO_DIRECTION STRING_TO_INTERFACE_TYPE ''NoMain'' exampleFileSystem
         (finalizedAfter 1 exampleOptions) exampleModel
       = Some (Inl (NoMainFile ''algos/NoMain'', []))
   \<and> buildExitCode exampleFileSystem
         [''algos/Broken/Main.cpp'', ''-g'', ''-o'', ''algos/Broken/a.out''] \<noteq> 0
   \<and> Controller STRING_TO_DIRECTION STRING_TO_INTERFACE_TYPE ''Broken'' exampleFileSystem
         (finalizedAfter 1 exampleOptions) exampleModel
       = Some (Inl (BuildFailed ''error: expected declaration'',
                    [Build [''algos/Broken/Main.cpp'', ''-g'', ''-o'', ''algos/Broken/a.out'']]))
   \<and> \<not> initialize exampleModel ''missing.xml'' NORTH
   \<and> Controller STRING_TO_DIRECTION STRING_TO_INTERFACE_TYPE ''Good'' exampleFileSystem
         (finalizedAfter 1 (exampleOptions\<lparr>mouseFile := ''missing.xml''\<rparr>)) exampleModel
       = Some (Inl (MouseInitFailed ''Good'' ''missing.xml'',
                    [Build [''algos/Good/Main.cpp'', ''-g'', ''-o'', ''algos/Good/a.out''],
                     StartProcess ''algos/Good/a.out'',
                     MouseInitialize ''missing.xml'' (Some NORTH)]))"
  using Controller_fatal_conditions
          [where alg = "''Unknown''" and fs = exampleFileSystem
             and ?s2d = STRING_TO_DIRECTION and ?s2i = STRING_TO_INTERFACE_TYPE
             and finalized = "finalizedAfter 1 exampleOptions" and model = exampleModel]
        Controller_fatal_conditions
          [where alg = "''NoMain''" and fs = exampleFileSystem
             and ?s2d = STRING_TO_DIRECTION and ?s2i = STRING_TO_INTERFACE_TYPE
             and finalized = "finalizedAfter 1 exampleOptions" and model = exampleModel]
        Controller_fatal_conditions
          [where alg = "''Broken''" and fs = exampleFileSystem
             and ?s2d = STRING_TO_DIRECTION and ?s2i = STRING_TO_INTERFACE_TYPE
             and finalized = "finalizedAfter 1 exampleOptions" and model = exampleModel
             and args = "[''algos/Broken/Main.cpp'', ''-g'', ''-o'', ''algos/Broken/a.out'']"]
        Controller_fatal_conditions
          [where alg = "''Good''" and fs = exampleFileSystem
             and ?s2d = STRING_TO_DIRECTION and ?s2i = STRING_TO_INTERFACE_TYPE
             and finalized = "finalizedAfter 1 (exampleOptions\<lparr>mouseFile := ''missing.xml''\<rparr>)"
             and opts = "exampleOptions\<lparr>mouseFile := ''missing.xml''\<rparr>"
             and model = exampleModel]
  by (simp add: Controller_def wait_finalizedAfter env_defs table_defs tile_defs)

subsection \<open>Writing the worker's result to the process\<close>

lemma c_str_without_zero: "CHR 0x00 \<notin> set s \<Longrightarrow> c_str s = s"
  by (auto simp: c_str_def takeWhile_eq_all_conv)

text \<open>
  A result without a zero character is written whole, followed by one newline; the empty
  result writes nothing.
\<close>

lemma receiveResultFromWorker_without_zero:
  "CHR 0x00 \<notin> set response \<Longrightarrow>
   receiveResultFromWorker response written
     = (if response = [] then written else written @ response @ [CHR 0x0A])"
  by (simp add: receiveResultFromWorker_def c_str_without_zero)

text \<open>
  Claim C4: a non-empty result is written to the process followed by one newline, and an
  empty result writes nothing. It fails for a result with a zero character in it: what is
  written stops before the zero, and no newline follows.
\<close>

theorem receiveResultFromWorker_stops_at_zero:
  "receiveResultFromWorker [CHR ''a'', CHR 0x00, CHR ''b''] [] = ''a''
   \<and> receiveResultFromWorker [CHR 0x00] [] = []"
  by (simp add: receiveResultFromWorker_def c_str_def)

subsection \<open>Declared walls agree across a shared edge\<close>

lemma withinMaze_setTileAt [simp]:
  "withinMaze (setTileAt g x y t) x' y' = withinMaze g x' y'"
  by (cases "nat x = nat x'") (auto simp: withinMaze_def setTileAt_def)

lemma tileAt_setTileAt:
  "withinMaze g x y \<Longrightarrow> withinMaze g x' y' \<Longrightarrow>
   tileAt (setTileAt g x y t) x' y' = (if x = x' \<and> y = y' then t else tileAt g x' y')"
  by (auto simp: withinMaze_def setTileAt_def tileAt_def nth_list_update)

lemma setTileAt_commute:
  "\<not> (x = x' \<and> y = y') \<Longrightarrow> withinMaze g x y \<Longrightarrow> withinMaze g x' y' \<Longrightarrow>
   setTileAt (setTileAt g x y t) x' y' t' = setTileAt (setTileAt g x' y' t') x y t"
  by (auto simp: setTileAt_def withinMaze_def list_update_swap nth_list_update)

lemma neighbor_differs: "\<not> (neighborX x d = x \<and> neighborY y d = y)"
  by (cases d) auto

lemma opposite_opposite [simp]: "opposite (opposite d) = d"
  by (cases d) auto

lemma neighbor_back [simp]:
  "neighborX (neighborX x d) (opposite d) = x" "neighborY (neighborY y d) (opposite d) = y"
  by (cases d; simp)+

lemma other_side_X: "neighborX x' d' = x \<Longrightarrow> x' = neighborX x (opposite d')"
  by (cases d') auto

lemma other_side_Y: "neighborY y' d' = y \<Longrightarrow> y' = neighborY y (opposite d')"
  by (cases d') auto

lemma opposite_eq: "opposite d' = d \<Longrightarrow> d' = opposite d"
  by (cases d') auto

text \<open>What one declaration changes: the declared edge and, inside the maze, its other side.\<close>

lemma declareWall_result:
  assumes "declareWall x y d w g = Inr g'"
  shows "withinMaze g x y"
    and "withinMaze g' x' y' = withinMaze g x' y'"
    and "withinMaze g x' y' \<Longrightarrow>
         m_declaredWalls (tileAt g' x' y') d' =
           (if (x' = x \<and> y' = y \<and> d' = d)
               \<or> (withinMaze g (neighborX x d) (neighborY y d)
                   \<and> x' = neighborX x d \<and> y' = neighborY y d \<and> d' = opposite d)
            then Some w else m_declaredWalls (tileAt g x' y') d')"
proof -
  show W: "withinMaze g x y" using assms by (auto simp: declareWall_def split: if_splits)
  show "withinMaze g' x' y' = withinMaze g x' y'"
    using assms by (auto simp: declareWall_def Let_def split: if_splits)
  assume W': "withinMaze g x' y'"
  show "m_declaredWalls (tileAt g' x' y') d' =
           (if (x' = x \<and> y' = y \<and> d' = d)
               \<or> (withinMaze g (neighborX x d) (neighborY y d)
                   \<and> x' = neighborX x d \<and> y' = neighborY y d \<and> d' = opposite d)
            then Some w else m_declaredWalls (tileAt g x' y') d')"
    using assms W W' neighbor_differs [of x d y]
    by (auto simp: declareWall_def Let_def tileAt_setTileAt TileGraphic_declareWall_def
          split: if_splits)
qed

lemma declareWall_succeeds:
  "withinMaze g x y \<Longrightarrow> \<exists>g'. declareWall x y d w g = Inr g'"
  by (simp add: declareWall_def Let_def)

lemma wallsAgree_declareWall:
  assumes A: "wallsAgree g" and D: "declareWall x y d w g = Inr g'"
  shows "wallsAgree g'"
  unfolding wallsAgree_def
proof (intro allI impI, elim conjE)
  fix x' y' d' a b
  let ?nx = "neighborX x' d'" and ?ny = "neighborY y' d'"
  assume W1: "withinMaze g' x' y'" and W2: "withinMaze g' ?nx ?ny"
    and S1: "m_declaredWalls (tileAt g' x' y') d' = Some a"
    and S2: "m_declaredWalls (tileAt g' ?nx ?ny) (opposite d') = Some b"
  have V1: "withinMaze g x' y'" and V2: "withinMaze g ?nx ?ny"
    using W1 W2 declareWall_result(2) [OF D] by auto
  note E1 = declareWall_result(3) [OF D V1, of d']
  note E2 = declareWall_result(3) [OF D V2, of "opposite d'"]
  show "a = b"
  proof (cases "(x' = x \<and> y' = y \<and> d' = d) \<or>
                (x' = neighborX x d \<and> y' = neighborY y d \<and> d' = opposite d)")
    case True
    then show ?thesis
    proof
      assume H: "x' = x \<and> y' = y \<and> d' = d"
      then have "Some a = Some w" using S1 E1 by simp
      moreover have "Some b = Some w" using S2 E2 H V2 by simp
      ultimately show ?thesis by simp
    next
      assume H: "x' = neighborX x d \<and> y' = neighborY y d \<and> d' = opposite d"
      then have "Some a = Some w" using S1 E1 V1 by auto
      moreover have "Some b = Some w" using S2 E2 H by simp
      ultimately show ?thesis by simp
    qed
  next
    case False
    have F1: "m_declaredWalls (tileAt g' x' y') d' = m_declaredWalls (tileAt g x' y') d'"
      using E1 False by auto
    have "\<not> ((?nx = x \<and> ?ny = y \<and> opposite d' = d) \<or>
              (?nx = neighborX x d \<and> ?ny = neighborY y d \<and> opposite d' = opposite d))"
    proof
      assume "(?nx = x \<and> ?ny = y \<and> opposite d' = d) \<or>
              (?nx = neighborX x d \<and> ?ny = neighborY y d \<and> opposite d' = opposite d)"
      then show False
      proof
        assume H: "?nx = x \<and> ?ny = y \<and> opposite d' = d"
        then have "d' = opposite d" by (auto dest: opposite_eq)
        moreover have "x' = neighborX x d" "y' = neighborY y d"
          using H other_side_X [of x' d' x] other_side_Y [of y' d' y] by auto
        ultimately show False using False by simp
      next
        assume H: "?nx = neighborX x d \<and> ?ny = neighborY y d \<and> opposite d' = opposite d"
        then have dd: "d' = d" by (cases d; cases d'; simp)
        then have "x' = x" "y' = y" using H by (cases d; simp)+
        then show False using False dd by simp
      qed
    qed
    then have F2: "m_declaredWalls (tileAt g' ?nx ?ny) (opposite d')
                   = m_declaredWalls (tileAt g ?nx ?ny) (opposite d')"
      using E2 by auto
    show ?thesis
      using A V1 V2 S1 S2 F1 F2 unfolding wallsAgree_def by metis
  qed
qed

lemma wallsAgree_declareWalls: "wallsAgree g \<Longrightarrow> wallsAgree (declareWalls ops g)"
proof (induction ops arbitrary: g)
  case Nil
  then show ?case by simp
next
  case (Cons op ops)
  obtain x y d w where op: "op = (x, y, d, w)" by (cases op) auto
  show ?case
  proof (cases "declareWall x y d w g")
    case (Inl e)
    then show ?thesis using Cons op by simp
  next
    case (Inr g')
    then show ?thesis using Cons op wallsAgree_declareWall [OF Cons.prems Inr] by simp
  qed
qed

lemma tileAt_fresh:
  "withinMaze (freshMazeGraphic w h) x y \<Longrightarrow>
   tileAt (freshMazeGraphic w h) x y = freshTileGraphic"
  by (auto simp: withinMaze_def freshMazeGraphic_def tileAt_def)

lemma wallsAgree_fresh: "wallsAgree (freshMazeGraphic w h)"
  unfolding wallsAgree_def by (auto simp: tileAt_fresh freshTileGraphic_def)

lemma declareWall_other_side:
  assumes "withinMaze g x y" and "withinMaze g (neighborX x d) (neighborY y d)"
  shows "declareWall (neighborX x d) (neighborY y d) (opposite d) w g = declareWall x y d w g"
  using assms neighbor_differs [of x d y]
  by (auto simp: declareWall_def Let_def tileAt_setTileAt setTileAt_commute)

lemma declareWall_both_sides:
  assumes "withinMaze g x y" and "withinMaze g (neighborX x d) (neighborY y d)"
  shows "\<exists>g'. declareWall x y d w g = Inr g'
           \<and> m_declaredWalls (tileAt g' x y) d = Some w
           \<and> m_declaredWalls (tileAt g' (neighborX x d) (neighborY y d)) (opposite d) = Some w"
proof -
  obtain g' where D: "declareWall x y d w g = Inr g'"
    using declareWall_succeeds [OF assms(1)] by blast
  have "m_declaredWalls (tileAt g' x y) d = Some w"
    using declareWall_result(3) [OF D assms(1), of d] by simp
  moreover have
    "m_declaredWalls (tileAt g' (neighborX x d) (neighborY y d)) (opposite d) = Some w"
    using declareWall_result(3) [OF D assms(2), of "opposite d"] assms(2) by simp
  ultimately show ?thesis using D by blast
qed

text \<open>
  Claim C7. After any sequence of wall declarations, from a state in which the declared
  walls agree and so from the maze graphic in which nothing is declared, the two tiles of
  every shared edge hold equal values wherever both sides are declared. Declaring a wall
  on a tile's edge and declaring it on the neighbor's corresponding edge give the same
  state, in which both sides hold the declared value.
\<close>

theorem declareWalls_agree:
  "(wallsAgree g \<longrightarrow> wallsAgree (declareWalls ops g))
   \<and> wallsAgree (declareWalls ops (freshMazeGraphic width height))
   \<and> (withinMaze g x y \<and> withinMaze g (neighborX x d) (neighborY y d) \<longrightarrow>
        declareWall (neighborX x d) (neighborY y d) (opposite d) isWall g
          = declareWall x y d isWall g
        \<and> (\<exists>g'. declareWall x y d isWall g = Inr g'
              \<and> m_declaredWalls (tileAt g' x y) d = Some isWall
              \<and> m_declaredWalls (tileAt g' (neighborX x d) (neighborY y d)) (opposite d)
                  = Some isWall))"
  using wallsAgree_declareWalls [of g ops]
    wallsAgree_declareWalls [OF wallsAgree_fresh, of ops width height]
    declareWall_other_side [of g x y d isWall]
    declareWall_both_sides [of g x y d isWall]
  by blast

lemmas maze_defs = declareWall_def freshMazeGraphic_def withinMaze_def setTileAt_def
  tileAt_def TileGraphic_declareWall_def Let_def freshTileGraphic_def numeral_2_eq_2

theorem declareWalls_agree_witness:
  "wallsAgree (freshMazeGraphic 2 2)
   \<and> wallsAgree (declareWalls [(0, 0, NORTH, True), (0, 1, EAST, False), (5, 5, WEST, True),
                               (1, 1, WEST, True)] (freshMazeGraphic 2 2))
   \<and> withinMaze (freshMazeGraphic 2 2) 0 0
   \<and> withinMaze (freshMazeGraphic 2 2) 0 1
   \<and> declareWall 0 1 SOUTH True (freshMazeGraphic 2 2)
       = declareWall 0 0 NORTH True (freshMazeGraphic 2 2)
   \<and> m_declaredWalls
         (tileAt (declareWalls [(0, 0, NORTH, True)] (freshMazeGraphic 2 2)) 0 1) SOUTH
       = Some True
   \<and> m_declaredWalls
         (tileAt (declareWalls [(0, 0, NORTH, True), (0, 1, EAST, False), (5, 5, WEST, True),
                                (1, 1, WEST, True)] (freshMazeGraphic 2 2)) 0 1) EAST
       = Some True"
proof -
  have within: "withinMaze (freshMazeGraphic 2 2) 0 0" "withinMaze (freshMazeGraphic 2 2) 0 1"
    by (simp_all add: maze_defs)
  have stored: "m_declaredWalls
         (tileAt (declareWalls [(0, 0, NORTH, True)] (freshMazeGraphic 2 2)) 0 1) SOUTH
       = Some True"
    "m_declaredWalls
         (tileAt (declareWalls [(0, 0, NORTH, True), (0, 1, EAST, False), (5, 5, WEST, True),
                                (1, 1, WEST, True)] (freshMazeGraphic 2 2)) 0 1) EAST
       = Some True"
    by (simp_all add: maze_defs)
  show ?thesis
    using within stored wallsAgree_fresh [of 2 2]
      declareWalls_agree [where g = "freshMazeGraphic 2 2"
        and ops = "[(0, 0, NORTH, True), (0, 1, EAST, False), (5, 5, WEST, True),
                    (1, 1, WEST, True)]"
        and width = 2 and height = 2 and x = 0 and y = 0 and d = NORTH and isWall = True]
    by simp
qed

subsection \<open>Sequence stamps of the search records\<close>




text \<open>
  Claim C9. The sequence stamp, the parent position, the source direction, the
  straight-away length and the heap index are 8-bit unsigned values, below 256. A stored
  epoch number is kept modulo 256, so the stamps of two epochs 256 apart are equal, and
  there are 256 stamps in all. A stored heap slot is kept modulo 256, and there are 256
  heap indices in all.
\<close>

theorem Info_fields_eight_bit:
  "unat (sequenceNumber info) < 256 \<and> unat (parentPosition info) < 256
   \<and> unat (sourceDirection info) < 256 \<and> unat (straightAwayLength info) < 256
   \<and> unat (heapIndex info) < 256
   \<and> unat (sequenceNumber (setSequenceNumber epoch info)) = epoch mod 256
   \<and> sequenceNumber (setSequenceNumber (epoch + 256) info)
       = sequenceNumber (setSequenceNumber epoch info)
   \<and> sequenceNumber (setSequenceNumber 256 info) = sequenceNumber (setSequenceNumber 0 info)
   \<and> unat (heapIndex (setHeapIndex slot info)) = slot mod 256
   \<and> heapIndex (setHeapIndex 256 info) = heapIndex (setHeapIndex 0 info)
   \<and> card (range (sequenceNumber :: Info \<Rightarrow> 8 word)) = 256
   \<and> card (range (heapIndex :: Info \<Rightarrow> 8 word)) = 256"
proof -
  have bound: "unat w < 256" for w :: "8 word"
    using unsigned_less [of w, where ?'a = nat] by simp
  have store: "unat (of_nat n :: 8 word) = n mod 256" for n
    by (simp add: unat_of_nat)
  have wrap: "(of_nat (n + 256) :: 8 word) = of_nat n" for n
    by simp
  have all_stamps: "range (sequenceNumber :: Info \<Rightarrow> 8 word) = UNIV"
  proof (rule surjI)
    fix w show "sequenceNumber ((undefined :: Info)\<lparr>sequenceNumber := w\<rparr>) = w" by simp
  qed
  have stamps: "card (range (sequenceNumber :: Info \<Rightarrow> 8 word)) = 256"
    unfolding all_stamps by (simp add: card_word)
  have all_slots: "range (heapIndex :: Info \<Rightarrow> 8 word) = UNIV"
  proof (rule surjI)
    fix w show "heapIndex ((undefined :: Info)\<lparr>heapIndex := w\<rparr>) = w" by simp
  qed
  have slots: "card (range (heapIndex :: Info \<Rightarrow> 8 word)) = 256"
    unfolding all_slots by (simp add: card_word)
  show ?thesis
    using bound store wrap stamps slots
    by (simp add: setSequenceNumber_def setHeapIndex_def epochStamp_def)
qed

end
